theory Spec2Isabelle
  imports Main "HOL-Library.AList"
begin

section \<open>The Go string functions the router calls\<close>

text \<open>
  Go strings are byte sequences; they are modelled as \<open>string\<close> (a list of characters).
  Only the calls that occur in the source are modelled, each at the argument shape the
  source uses: \<open>strings.Trim(s, "/")\<close> and \<open>strings.Split(s, "/")\<close> with a one-byte
  cutset and separator, \<open>strings.HasPrefix\<close>, \<open>strings.HasSuffix\<close>,
  \<open>strings.Contains(s, ":")\<close> and \<open>strings.ToUpper\<close>.
\<close>

definition trimLeft :: "char \<Rightarrow> string \<Rightarrow> string" where
  "trimLeft c s = dropWhile (\<lambda>x. x = c) s"

definition trimRight :: "char \<Rightarrow> string \<Rightarrow> string" where
  "trimRight c s = rev (dropWhile (\<lambda>x. x = c) (rev s))"

text \<open>\<open>strings.Trim(s, c)\<close>: every leading and every trailing \<open>c\<close> is removed.\<close>

definition trim :: "char \<Rightarrow> string \<Rightarrow> string" where
  "trim c s = trimRight c (trimLeft c s)"

text \<open>
  \<open>strings.Split(s, sep)\<close>: the pieces between the separators, one more than there are
  separators; the empty string gives one empty piece. The first case of the inner
  \<open>case\<close> is never taken (the result is never empty) and only makes the function total.
\<close>

fun split :: "char \<Rightarrow> string \<Rightarrow> string list" where
  "split sep [] = [[]]"
| "split sep (x # xs) =
     (if x = sep then [] # split sep xs
      else (case split sep xs of
              [] \<Rightarrow> [[x]]
            | seg # segs \<Rightarrow> (x # seg) # segs))"

text \<open>\<open>len(s) >= len(prefix) && s[:len(prefix)] == prefix\<close>, as Go writes it.\<close>

definition hasPrefix :: "string \<Rightarrow> string \<Rightarrow> bool" where
  "hasPrefix s pre = (length pre \<le> length s \<and> take (length pre) s = pre)"

text \<open>\<open>len(s) >= len(suffix) && s[len(s)-len(suffix):] == suffix\<close>.\<close>

definition hasSuffix :: "string \<Rightarrow> string \<Rightarrow> bool" where
  "hasSuffix s suf = (length suf \<le> length s \<and> drop (length s - length suf) s = suf)"

definition containsByte :: "string \<Rightarrow> char \<Rightarrow> bool" where
  "containsByte s c = (c \<in> set s)"

text \<open>
  \<open>strings.ToUpper\<close> on the ASCII letters; every other byte is kept (Go also maps
  letters outside ASCII, which an HTTP method token cannot contain).
\<close>

definition toUpperByte :: "char \<Rightarrow> char" where
  "toUpperByte c =
     (case map_of (zip ''abcdefghijklmnopqrstuvwxyz'' ''ABCDEFGHIJKLMNOPQRSTUVWXYZ'') c of
        None \<Rightarrow> c
      | Some u \<Rightarrow> u)"

definition toUpper :: "string \<Rightarrow> string" where
  "toUpper s = map toUpperByte s"

section \<open>matchers.go\<close>

text \<open>
  \<open>url.Values\<close> is \<open>map[string][]string\<close>; \<open>Get\<close> returns the first value of a key, and
  the empty string when the key is absent or has no value.
\<close>

type_synonym Values = "string \<rightharpoonup> string list"

definition Values_Get :: "Values \<Rightarrow> string \<Rightarrow> string" where
  "Values_Get v key =
     (case v key of
        None \<Rightarrow> []
      | Some vs \<Rightarrow> (case vs of [] \<Rightarrow> [] | x # _ \<Rightarrow> x))"

text \<open>
  The loop of \<open>pathMatch\<close> walks the template segments and reads the request segment at
  the same index; the two lists are walked in step. The loop only runs once the lengths
  are known to be equal, so the index is always in range and the third equation is
  never reached.
\<close>

fun segmentsLoop :: "string list \<Rightarrow> string list \<Rightarrow> bool" where
  "segmentsLoop [] reqSegs = True"
| "segmentsLoop (seg # tplSegs) (req # reqSegs) =
     (if hasPrefix seg '':'' then segmentsLoop tplSegs reqSegs
      else if seg \<noteq> req then False
      else segmentsLoop tplSegs reqSegs)"
| "segmentsLoop (seg # tplSegs) [] = False"

definition pathMatch :: "string list \<Rightarrow> string \<Rightarrow> bool" where
  "pathMatch tplSegs rawPath =
     (let reqSegs = split CHR ''/'' (trim CHR ''/'' rawPath) in
      if length reqSegs \<noteq> length tplSegs then False
      else segmentsLoop tplSegs reqSegs)"

text \<open>
  A Go \<open>map[string]string\<close> is modelled as an association list (the nil map and the
  empty map are both \<open>[]\<close>); the \<open>range\<close> loop visits its entries in some order and leaves
  at the first mismatch.
\<close>

fun queryLoop :: "(string \<times> string) list \<Rightarrow> Values \<Rightarrow> bool" where
  "queryLoop [] urlVals = True"
| "queryLoop ((k, v) # tpl) urlVals =
     (if Values_Get urlVals k \<noteq> v then False else queryLoop tpl urlVals)"

definition queryMatch :: "(string \<times> string) list \<Rightarrow> Values \<Rightarrow> bool" where
  "queryMatch tpl urlVals = (if length tpl = 0 then True else queryLoop tpl urlVals)"

section \<open>middleware.go\<close>

text \<open>
  A middleware maps a handler to a handler. The loop runs \<open>i\<close> from \<open>len(mws) - 1\<close> down
  to \<open>0\<close>; the counter of \<open>chainLoop\<close> is \<open>i + 1\<close>, so that it stays a natural number.
\<close>

fun chainLoop :: "nat \<Rightarrow> 'h \<Rightarrow> ('h \<Rightarrow> 'h) list \<Rightarrow> 'h" where
  "chainLoop 0 h mws = h"
| "chainLoop (Suc i) h mws = chainLoop i ((mws ! i) h) mws"

definition chainMiddleware :: "'h \<Rightarrow> ('h \<Rightarrow> 'h) list \<Rightarrow> 'h" where
  "chainMiddleware h mws = chainLoop (length mws) h mws"

text \<open>
  The two shapes of middleware the tests build. A handler acts on a state \<open>'w\<close> (the
  response writer and whatever the closure captured) for a request \<open>'r\<close>. \<open>around\<close> runs
  its own logic, calls the next link, and runs its own logic again; \<open>shortCircuit\<close> never
  calls the next link.
\<close>

definition around :: "('w \<Rightarrow> 'r \<Rightarrow> 'w) \<Rightarrow> ('w \<Rightarrow> 'r \<Rightarrow> 'w) \<Rightarrow> ('w \<Rightarrow> 'r \<Rightarrow> 'w) \<Rightarrow> ('w \<Rightarrow> 'r \<Rightarrow> 'w)" where
  "around before after next = (\<lambda>w r. after (next (before w r) r) r)"

definition shortCircuit :: "('w \<Rightarrow> 'r \<Rightarrow> 'w) \<Rightarrow> ('w \<Rightarrow> 'r \<Rightarrow> 'w) \<Rightarrow> ('w \<Rightarrow> 'r \<Rightarrow> 'w)" where
  "shortCircuit act next = (\<lambda>w r. act w r)"

text \<open>The closures of the ordering test: each appends its label to \<open>execOrder\<close>.\<close>

definition logEvent :: "string \<Rightarrow> string list \<Rightarrow> 'r \<Rightarrow> string list" where
  "logEvent label execOrder r = execOrder @ [label]"

section \<open>Requests and response writers\<close>

record request =
  r_Method :: string
  r_Path :: string
  r_Query :: Values
  r_Body :: string

text \<open>
  What a handler can do to an \<open>http.ResponseWriter\<close>: set or delete a header, write the
  status line once (a later \<open>WriteHeader\<close> is ignored), and write body bytes (which
  writes status 200 first when no status was written).
\<close>

record response =
  header :: "(string \<times> string) list"
  wroteHeader :: bool
  status :: int
  body :: string

definition newRecorder :: response where
  "newRecorder = \<lparr>header = [], wroteHeader = False, status = 0, body = []\<rparr>"

definition Header_Set :: "string \<Rightarrow> string \<Rightarrow> response \<Rightarrow> response" where
  "Header_Set k v w = w\<lparr>header := AList.update k v (header w)\<rparr>"

definition Header_Del :: "string \<Rightarrow> response \<Rightarrow> response" where
  "Header_Del k w = w\<lparr>header := AList.delete k (header w)\<rparr>"

definition WriteHeader :: "int \<Rightarrow> response \<Rightarrow> response" where
  "WriteHeader c w = (if wroteHeader w then w else w\<lparr>wroteHeader := True, status := c\<rparr>)"

definition Write :: "string \<Rightarrow> response \<Rightarrow> response" where
  "Write bs w =
     (let w1 = (if \<not> wroteHeader w then WriteHeader 200 w else w)
      in w1\<lparr>body := body w1 @ bs\<rparr>)"

definition StatusOK :: int where "StatusOK = 200"
definition StatusCreated :: int where "StatusCreated = 201"
definition StatusBadRequest :: int where "StatusBadRequest = 400"
definition StatusNotFound :: int where "StatusNotFound = 404"
definition StatusMethodNotAllowed :: int where "StatusMethodNotAllowed = 405"

definition StatusText :: "int \<Rightarrow> string" where
  "StatusText c =
     (if c = 200 then ''OK''
      else if c = 201 then ''Created''
      else if c = 400 then ''Bad Request''
      else if c = 404 then ''Not Found''
      else if c = 405 then ''Method Not Allowed''
      else [])"

text \<open>\<open>http.Error\<close>: plain-text headers, the status, then the message and a newline.\<close>

definition http_Error :: "response \<Rightarrow> string \<Rightarrow> int \<Rightarrow> response" where
  "http_Error w msg c =
     Write (msg @ [CHR 0x0A])
       (WriteHeader c
         (Header_Set ''X-Content-Type-Options'' ''nosniff''
           (Header_Set ''Content-Type'' ''text/plain; charset=utf-8''
             (Header_Del ''Content-Length'' w))))"

definition http_NotFound :: "response \<Rightarrow> request \<Rightarrow> response" where
  "http_NotFound w r = http_Error w ''404 page not found'' StatusNotFound"

type_synonym handler = "response \<Rightarrow> request \<Rightarrow> response"

type_synonym Middleware = "handler \<Rightarrow> handler"

section \<open>stubsrv.go: the registry and the server state\<close>

record routeInfo =
  handler :: handler
  middlewares :: "Middleware list"

record templateRoute =
  tr_method :: string
  segments :: "string list"
  queries :: "(string \<times> string) list"
  info :: routeInfo

text \<open>
  \<open>fmt.Errorf\<close> with \<open>%w\<close> keeps the error it wraps; \<open>errors.New\<close> has none.
\<close>

datatype error = errorString string | wrapError string error

fun Error :: "error \<Rightarrow> string" where
  "Error (errorString m) = m"
| "Error (wrapError m e) = m"

fun Unwrap :: "error \<Rightarrow> error option" where
  "Unwrap (errorString m) = None"
| "Unwrap (wrapError m e) = Some e"

text \<open>
  The three handlers \<open>NewStub\<close> registers on the \<open>http.ServeMux\<close> are methods and a
  closure of the stub itself; the mux is the list of its patterns with the handler
  each names.
\<close>

datatype endpoint = controlAddHandler_h | readyz_h | dispatch_h

type_synonym ServeMux = "(string \<times> endpoint) list"

record httptest_Server =
  Listener :: string
  Config_Handler :: "ServeMux option"
  srv_URL :: string
  srv_closed :: bool

text \<open>
  The mutex and the logger of the struct have no part in a sequential run and are left
  out. \<open>routers\<close> is the Go map from \<open>"METHOD /path"\<close> keys to entries, as an association
  list: assignment is \<open>AList.update\<close>, lookup is \<open>map_of\<close>.
\<close>

record Stub =
  routers :: "(string \<times> routeInfo) list"
  templateRoutes :: "templateRoute list"
  baseURL :: string
  port :: string
  Server :: "httptest_Server option"
  mux :: "ServeMux option"
  closed :: bool

definition defaultPort :: string where
  "defaultPort = ''8008''"

record stubConfig =
  cfg_port :: string

definition WithPort :: "string \<Rightarrow> stubConfig \<Rightarrow> stubConfig" where
  "WithPort p cfg = cfg\<lparr>cfg_port := p\<rparr>"

definition NewStub :: "(stubConfig \<Rightarrow> stubConfig) list \<Rightarrow> Stub" where
  "NewStub opts =
     (let s = \<lparr>routers = [], templateRoutes = [], baseURL = [], port = defaultPort,
                Server = None, mux = None, closed = False\<rparr>;
          cfg = fold (\<lambda>opt c. opt c) opts \<lparr>cfg_port = []\<rparr>;
          s = s\<lparr>port := cfg_port cfg\<rparr>
      in s\<lparr>mux := Some [(''/_control/handlers'', controlAddHandler_h),
                          (''/readyz'', readyz_h),
                          (''/'', dispatch_h)]\<rparr>)"

text \<open>\<open>AddHandler\<close> panics on a closed stub: \<open>Inl\<close> carries the panic message.\<close>

definition AddHandler :: "Stub \<Rightarrow> string \<Rightarrow> string \<Rightarrow> handler \<Rightarrow> Middleware list \<Rightarrow> string + Stub" where
  "AddHandler s meth path handlerFunc mws =
     (if closed s then Inl ''cannot add handlers on a closed stub server''
      else
        let upperMethod = toUpper meth in
        if containsByte path CHR '':'' then
          Inr (s\<lparr>templateRoutes := templateRoutes s @
                 [\<lparr>tr_method = upperMethod,
                   segments = split CHR ''/'' (trim CHR ''/'' path),
                   queries = [],
                   info = \<lparr>handler = handlerFunc, middlewares = mws\<rparr>\<rparr>]\<rparr>)
        else
          let key = upperMethod @ '' '' @ path in
          Inr (s\<lparr>routers := AList.update key \<lparr>handler = handlerFunc, middlewares = mws\<rparr> (routers s)\<rparr>))"

text \<open>
  \<open>net.Listen\<close> is the operating system's answer for an address: an error, or a
  listener, of which the model keeps the bound address. \<open>net.JoinHostPort("", port)\<close>
  is \<open>":" + port\<close>, and \<open>httptest.Server.Start\<close> sets the URL to \<open>"http://"\<close> followed by
  the listener's address.
\<close>

definition JoinHostPort_empty :: "string \<Rightarrow> string" where
  "JoinHostPort_empty p = '':'' @ p"

definition Start :: "(string \<Rightarrow> error + string) \<Rightarrow> Stub \<Rightarrow> error option \<times> Stub" where
  "Start net_Listen s =
     (if Server s \<noteq> None then (Some (errorString ''stub server is already started''), s)
      else
        let listenAddr = JoinHostPort_empty (port s) in
        case net_Listen listenAddr of
          Inl err \<Rightarrow>
            (Some (wrapError (''could not listen on '' @ listenAddr @ '': '' @ Error err) err),
             s\<lparr>mux := None\<rparr>)
        | Inr ln \<Rightarrow>
            let srv = \<lparr>Listener = ln, Config_Handler = mux s,
                       srv_URL = ''http://'' @ ln, srv_closed = False\<rparr>
            in (None, s\<lparr>Server := Some srv, baseURL := srv_URL srv\<rparr>))"

definition Server_Close :: "httptest_Server \<Rightarrow> httptest_Server" where
  "Server_Close srv = srv\<lparr>srv_closed := True\<rparr>"

definition Close :: "Stub \<Rightarrow> Stub" where
  "Close s =
     (if Server s \<noteq> None \<and> \<not> closed s
      then s\<lparr>Server := map_option Server_Close (Server s), closed := True\<rparr>
      else s)"

definition URL :: "Stub \<Rightarrow> string" where
  "URL s = (if Server s = None \<or> closed s then [] else baseURL s)"

section \<open>stubsrv.go: the control plane\<close>

record DynamicHandlerSpec =
  Method :: string
  Path :: string
  Query :: "(string \<times> string) list"
  Status :: int
  Body :: string
  Headers :: "(string \<times> string) list"

text \<open>The closure \<open>responseHandler\<close> over the decoded payload.\<close>

definition responseHandler :: "DynamicHandlerSpec \<Rightarrow> handler" where
  "responseHandler spec w r =
     (let w1 = fold (\<lambda>(k, v) w'. Header_Set k v w') (Headers spec) w;
          w2 = WriteHeader (Status spec) w1
      in if Body spec \<noteq> [] then Write (Body spec) w2 else w2)"

text \<open>
  \<open>json.NewDecoder(r.Body).Decode(&spec)\<close> is the parameter \<open>decode\<close>: the error text, or
  the payload with Go's zero value in every field the body leaves out.
\<close>

definition controlAddHandler ::
  "(string \<Rightarrow> string + DynamicHandlerSpec) \<Rightarrow> Stub \<Rightarrow> response \<Rightarrow> request \<Rightarrow> Stub \<times> response" where
  "controlAddHandler decode s w r =
     (if r_Method r \<noteq> ''POST''
      then (s, http_Error w (StatusText StatusMethodNotAllowed) StatusMethodNotAllowed)
      else
        case decode (r_Body r) of
          Inl err \<Rightarrow> (s, http_Error w (''invalid JSON: '' @ err) StatusBadRequest)
        | Inr spec0 \<Rightarrow>
            if Method spec0 = [] \<or> Path spec0 = []
            then (s, http_Error w ''method and path are required'' StatusBadRequest)
            else
              let spec = (if Status spec0 = 0 then spec0\<lparr>Status := StatusOK\<rparr> else spec0) in
              if containsByte (Path spec) CHR '':'' \<or> length (Query spec) > 0 then
                (s\<lparr>templateRoutes := templateRoutes s @
                     [\<lparr>tr_method = toUpper (Method spec),
                       segments = split CHR ''/'' (trim CHR ''/'' (Path spec)),
                       queries = Query spec,
                       info = \<lparr>handler = responseHandler spec, middlewares = []\<rparr>\<rparr>]\<rparr>,
                 WriteHeader StatusCreated w)
              else
                let key = toUpper (Method spec) @ '' '' @ Path spec in
                (s\<lparr>routers := AList.update key
                     \<lparr>handler = responseHandler spec, middlewares = []\<rparr> (routers s)\<rparr>,
                 WriteHeader StatusCreated w))"

section \<open>stubsrv.go: the dispatcher\<close>

text \<open>The scan of the templated routes, in insertion order; the first full match wins.\<close>

fun templateScan :: "templateRoute list \<Rightarrow> request \<Rightarrow> routeInfo option" where
  "templateScan [] r = None"
| "templateScan (tr # trs) r =
     (if tr_method tr \<noteq> r_Method r then templateScan trs r
      else if \<not> pathMatch (segments tr) (r_Path r) then templateScan trs r
      else if \<not> queryMatch (queries tr) (r_Query r) then templateScan trs r
      else Some (info tr))"

text \<open>The two loops that classify a miss: over the exact keys, then over the templates.\<close>

fun keySuffixScan :: "(string \<times> routeInfo) list \<Rightarrow> string \<Rightarrow> bool" where
  "keySuffixScan [] targetPath = False"
| "keySuffixScan ((k, i) # rs) targetPath =
     (if hasSuffix k targetPath then True else keySuffixScan rs targetPath)"

fun templatePathScan :: "templateRoute list \<Rightarrow> request \<Rightarrow> bool" where
  "templatePathScan [] r = False"
| "templatePathScan (tr # trs) r =
     (if \<not> pathMatch (segments tr) (r_Path r) then templatePathScan trs r
      else if \<not> queryMatch (queries tr) (r_Query r) then templatePathScan trs r
      else True)"

definition dispatch :: "Stub \<Rightarrow> response \<Rightarrow> request \<Rightarrow> response" where
  "dispatch s w r =
     (let key = toUpper (r_Method r) @ '' '' @ r_Path r in
      case map_of (routers s) key of
        Some ri \<Rightarrow> chainMiddleware (handler ri) (middlewares ri) w r
      | None \<Rightarrow>
          (case templateScan (templateRoutes s) r of
             Some ri \<Rightarrow> chainMiddleware (handler ri) (middlewares ri) w r
           | None \<Rightarrow>
               let targetPath = '' '' @ r_Path r;
                   methodMismatch = keySuffixScan (routers s) targetPath;
                   methodMismatch =
                     (if \<not> methodMismatch then templatePathScan (templateRoutes s) r
                      else methodMismatch)
               in if methodMismatch
                  then http_Error w (StatusText StatusMethodNotAllowed) StatusMethodNotAllowed
                  else http_NotFound w r))"

text \<open>A handler as the tests write them: a fixed status, then a fixed body.\<close>

definition respond :: "int \<Rightarrow> string \<Rightarrow> handler" where
  "respond c b w r = Write b (WriteHeader c w)"

section \<open>stubsrv.go: what the started server does with a request\<close>

text \<open>The closure \<open>NewStub\<close> registers for the readiness probe.\<close>

definition readyz :: handler where
  "readyz w r =
     (if r_Method r \<noteq> ''GET''
      then http_Error w (StatusText StatusMethodNotAllowed) StatusMethodNotAllowed
      else Write ''ok'' (WriteHeader StatusOK w))"

text \<open>
  \<open>http.ServeMux\<close>, for the three patterns of \<open>NewStub\<close>: a pattern that ends in a slash
  names the subtree below it, any other pattern names one path, and the longest
  matching pattern wins.
\<close>

definition patternMatches :: "string \<Rightarrow> string \<Rightarrow> bool" where
  "patternMatches pat path = (if hasSuffix pat ''/'' then hasPrefix path pat else pat = path)"

definition muxLookup :: "ServeMux \<Rightarrow> string \<Rightarrow> endpoint option" where
  "muxLookup m path =
     (case filter (\<lambda>pe. patternMatches (fst pe) path) m of
        [] \<Rightarrow> None
      | c # cs \<Rightarrow>
          Some (snd (fold (\<lambda>q best. if length (fst best) < length (fst q) then q else best) cs c)))"

text \<open>
  A request sent to the stub. Without a server, or after its close, nothing listens.
  \<open>Start\<close> hands \<open>s.mux\<close> to the \<open>http.Server\<close> as its handler; when that pointer is nil
  the call of \<open>ServeHTTP\<close> on it dereferences nil and panics, and no response is
  written. The handlers of the mux are bound to the stub, so they see its current
  registry.
\<close>

datatype served = Refused | Panicked | Responded Stub response

definition serve :: "(string \<Rightarrow> string + DynamicHandlerSpec) \<Rightarrow> Stub \<Rightarrow> request \<Rightarrow> served" where
  "serve decode s r =
     (case Server s of
        None \<Rightarrow> Refused
      | Some srv \<Rightarrow>
          if srv_closed srv then Refused
          else
            (case Config_Handler srv of
               None \<Rightarrow> Panicked
             | Some m \<Rightarrow>
                 (case muxLookup m (r_Path r) of
                    None \<Rightarrow> Responded s (http_NotFound newRecorder r)
                  | Some controlAddHandler_h \<Rightarrow>
                      (case controlAddHandler decode s newRecorder r of
                         (s', w) \<Rightarrow> Responded s' w)
                  | Some readyz_h \<Rightarrow> Responded s (readyz newRecorder r)
                  | Some dispatch_h \<Rightarrow> Responded s (dispatch s newRecorder r))))"

section \<open>Properties of the matchers\<close>


lemma queryLoop_iff: "queryLoop tpl u = list_all (\<lambda>p. Values_Get u (fst p) = snd p) tpl"
  by (induction tpl) (auto split: if_splits)

lemma queryMatch_iff: "queryMatch tpl u = list_all (\<lambda>p. Values_Get u (fst p) = snd p) tpl"
  by (cases tpl) (simp_all add: queryMatch_def queryLoop_iff)

lemma segmentsLoop_iff:
  "length reqSegs = length tplSegs \<Longrightarrow>
   segmentsLoop tplSegs reqSegs \<longleftrightarrow>
     (\<forall>i < length tplSegs. hasPrefix (tplSegs ! i) '':'' \<or> tplSegs ! i = reqSegs ! i)"
proof (induction tplSegs arbitrary: reqSegs)
  case Nil
  then show ?case by simp
next
  case (Cons seg tplSegs)
  then obtain req rest where r: "reqSegs = req # rest" and len: "length rest = length tplSegs"
    by (cases reqSegs) auto
  have "segmentsLoop (seg # tplSegs) (req # rest) \<longleftrightarrow>
          (hasPrefix seg '':'' \<or> seg = req) \<and> segmentsLoop tplSegs rest"
    by auto
  also have "\<dots> \<longleftrightarrow> (hasPrefix seg '':'' \<or> seg = req) \<and>
          (\<forall>i < length tplSegs. hasPrefix (tplSegs ! i) '':'' \<or> tplSegs ! i = rest ! i)"
    using Cons.IH [OF len] by simp
  also have "\<dots> \<longleftrightarrow> (\<forall>i < length (seg # tplSegs).
          hasPrefix ((seg # tplSegs) ! i) '':'' \<or> (seg # tplSegs) ! i = (req # rest) ! i)"
    by (auto simp: nth_Cons split: nat.splits)
  finally show ?case using r by simp
qed

text \<open>
  Claim C3, as stated, says that \<open>queryMatch\<close> is false whenever a required key is absent
  from the actual query. It is not: \<open>Get\<close> reads an absent key as the empty string, so a
  constraint that requires the empty string holds on a query without the key.
\<close>

theorem queryMatch_absent_key_counterexample:
  "(''k'', []) \<in> set [(''k'', [])] \<and> (Map.empty :: Values) ''k'' = None \<and> queryMatch [(''k'', [])] Map.empty"
  by (simp add: queryMatch_def Values_Get_def)

text \<open>
  Claim C3, amended: the empty constraint mapping matches every query; when every key of
  \<open>C\<close> is in \<open>Q\<close> with an equal first value, \<open>queryMatch C Q\<close> is true (other keys of \<open>Q\<close>
  are ignored); and when some required key is absent from \<open>Q\<close> while its required value
  is not the empty string, or its first value in \<open>Q\<close> differs from the required value,
  \<open>queryMatch C Q\<close> is false.
\<close>

theorem queryMatch_subset:
  "(C = [] \<longrightarrow> queryMatch C Q) \<and>
   ((\<forall>(k, v) \<in> set C. \<exists>vs. Q k = Some (v # vs)) \<longrightarrow> queryMatch C Q) \<and>
   ((\<exists>(k, v) \<in> set C. (Q k = None \<and> v \<noteq> []) \<or> (\<exists>v' vs. Q k = Some (v' # vs) \<and> v' \<noteq> v))
      \<longrightarrow> \<not> queryMatch C Q)"
proof (intro conjI impI)
  assume "C = []"
  then show "queryMatch C Q" by (simp add: queryMatch_def)
next
  assume sub: "\<forall>(k, v) \<in> set C. \<exists>vs. Q k = Some (v # vs)"
  have "Values_Get Q (fst p) = snd p" if "p \<in> set C" for p
  proof -
    obtain k v where p: "p = (k, v)" by (cases p)
    with sub that obtain vs where "Q k = Some (v # vs)" by auto
    with p show ?thesis by (simp add: Values_Get_def)
  qed
  then show "queryMatch C Q" by (simp add: queryMatch_iff list_all_iff)
next
  assume "\<exists>(k, v) \<in> set C. (Q k = None \<and> v \<noteq> []) \<or> (\<exists>v' vs. Q k = Some (v' # vs) \<and> v' \<noteq> v)"
  then obtain k v where kv: "(k, v) \<in> set C"
    and bad: "(Q k = None \<and> v \<noteq> []) \<or> (\<exists>v' vs. Q k = Some (v' # vs) \<and> v' \<noteq> v)"
    by auto
  from bad have "Values_Get Q k \<noteq> v" by (auto simp: Values_Get_def)
  with kv show "\<not> queryMatch C Q" by (force simp: queryMatch_iff list_all_iff)
qed

theorem queryMatch_subset_witness:
  "queryMatch [(''status'', ''shipped'')] (map_of [(''status'', [''shipped'']), (''page'', [''2''])]) \<and>
   \<not> queryMatch [(''status'', ''shipped'')] (map_of [(''status'', [''pending''])]) \<and>
   \<not> queryMatch [(''status'', ''shipped'')] Map.empty \<and>
   queryMatch [] (map_of [(''foo'', [''1''])])"
proof -
  have a: "queryMatch [(''status'', ''shipped'')] (map_of [(''status'', [''shipped'']), (''page'', [''2''])])"
    using queryMatch_subset [of "[(''status'', ''shipped'')]" "map_of [(''status'', [''shipped'']), (''page'', [''2''])]"]
    by simp
  have b: "\<not> queryMatch [(''status'', ''shipped'')] (map_of [(''status'', [''pending''])])"
    using queryMatch_subset [of "[(''status'', ''shipped'')]" "map_of [(''status'', [''pending''])]"]
    by simp
  have c: "\<not> queryMatch [(''status'', ''shipped'')] Map.empty"
    using queryMatch_subset [of "[(''status'', ''shipped'')]" "Map.empty"]
    by simp
  have d: "queryMatch [] (map_of [(''foo'', [''1''])])"
    using queryMatch_subset [of "[]" "map_of [(''foo'', [''1''])]"]
    by simp
  from a b c d show ?thesis by blast
qed

text \<open>
  Claim C4: a request path whose number of segments (after trimming the slashes at both
  ends and splitting on the slash) differs from the number of template segments never
  matches, whatever the template segments are.
\<close>

theorem pathMatch_segment_count:
  "length (split CHR ''/'' (trim CHR ''/'' rawPath)) \<noteq> length tplSegs \<Longrightarrow>
   \<not> pathMatch tplSegs rawPath"
  by (simp add: pathMatch_def)

theorem pathMatch_segment_count_witness:
  "length (split CHR ''/'' (trim CHR ''/'' ''/users/7/orders'')) \<noteq> length ['':a'', '':b''] \<and>
   \<not> pathMatch ['':a'', '':b''] ''/users/7/orders''"
proof -
  have n: "length (split CHR ''/'' (trim CHR ''/'' ''/users/7/orders'')) \<noteq> length ['':a'', '':b'']"
    by (simp add: trim_def trimLeft_def trimRight_def)
  from n pathMatch_segment_count [OF n] show ?thesis by blast
qed

text \<open>
  Claim C5, as stated, says that a placeholder segment accepts only non-empty values.
  The loop skips a placeholder without looking at the request segment, so the empty
  segment is accepted as well: \<open>/users//orders\<close> matches \<open>users/:id/orders\<close>, and \<open>/\<close>
  matches the one-segment template \<open>:id\<close>.
\<close>

theorem pathMatch_placeholder_empty_segment:
  "hasPrefix '':id'' '':'' \<and>
   split CHR ''/'' (trim CHR ''/'' ''/users//orders'') = [''users'', [], ''orders''] \<and>
   pathMatch [''users'', '':id'', ''orders''] ''/users//orders'' \<and>
   pathMatch ['':id''] ''/''"
  by (simp add: pathMatch_def hasPrefix_def trim_def trimLeft_def trimRight_def)

text \<open>
  Claim C5, amended: \<open>pathMatch\<close> holds exactly when the segment counts are equal and, at
  every position, the template segment either starts with the parameter marker (then
  any request segment is accepted, the empty one included) or equals the request
  segment.
\<close>

theorem pathMatch_positional:
  "pathMatch tplSegs rawPath \<longleftrightarrow>
     length (split CHR ''/'' (trim CHR ''/'' rawPath)) = length tplSegs \<and>
     (\<forall>i < length tplSegs.
        hasPrefix (tplSegs ! i) '':'' \<or> tplSegs ! i = split CHR ''/'' (trim CHR ''/'' rawPath) ! i)"
proof (cases "length (split CHR ''/'' (trim CHR ''/'' rawPath)) = length tplSegs")
  case True
  then show ?thesis by (simp add: pathMatch_def segmentsLoop_iff)
next
  case False
  then show ?thesis by (simp add: pathMatch_def)
qed

theorem pathMatch_positional_witness:
  "pathMatch [''users'', '':id'', ''orders'', '':orderId''] ''/users/99/orders/123'' \<and>
   \<not> pathMatch [''users'', '':id''] ''/accounts/42''"
proof -
  have a: "pathMatch [''users'', '':id'', ''orders'', '':orderId''] ''/users/99/orders/123''"
    unfolding pathMatch_positional [of "[''users'', '':id'', ''orders'', '':orderId'']" "''/users/99/orders/123''"]
    by (simp add: hasPrefix_def trim_def trimLeft_def trimRight_def nth_Cons less_Suc_eq_0_disj split: nat.splits)
  have b: "\<not> pathMatch [''users'', '':id''] ''/accounts/42''"
  proof
    assume "pathMatch [''users'', '':id''] ''/accounts/42''"
    then have "\<forall>i < length [''users'', '':id''].
        hasPrefix ([''users'', '':id''] ! i) '':'' \<or>
        [''users'', '':id''] ! i = split CHR ''/'' (trim CHR ''/'' ''/accounts/42'') ! i"
      using pathMatch_positional [of "[''users'', '':id'']" "''/accounts/42''"] by blast
    then have "hasPrefix ([''users'', '':id''] ! 0) '':'' \<or>
        [''users'', '':id''] ! 0 = split CHR ''/'' (trim CHR ''/'' ''/accounts/42'') ! 0"
      by (elim allE [of _ 0]) simp
    then show False
      by (simp add: hasPrefix_def trim_def trimLeft_def trimRight_def)
  qed
  from a b show ?thesis by blast
qed

text \<open>
  Claim C10, as stated, says that a mapping with some key required to be the empty string
  matches every query without that key. The other constraints of the mapping still have
  to hold.
\<close>

theorem queryMatch_empty_value_counterexample:
  "map_of [(''a'', []), (''b'', ''1'')] ''a'' = Some [] \<and> (Map.empty :: Values) ''a'' = None \<and>
   \<not> queryMatch [(''a'', []), (''b'', ''1'')] Map.empty"
  by (simp add: queryMatch_def Values_Get_def)

text \<open>
  Claim C10, amended: when the mapping requires the empty string for a key that is absent
  from the query, that constraint holds (so the mapping with this single constraint
  matches), and the mapping matches exactly when each of its other constraints holds.
\<close>

theorem queryMatch_empty_value_absent_key:
  assumes "(k, []) \<in> set C" and "Q k = None"
  shows "queryMatch [(k, [])] Q \<and>
         (queryMatch C Q \<longleftrightarrow> (\<forall>p \<in> set C. p \<noteq> (k, []) \<longrightarrow> Values_Get Q (fst p) = snd p))"
proof
  from assms(2) show "queryMatch [(k, [])] Q" by (simp add: queryMatch_def Values_Get_def)
next
  from assms(2) have "Values_Get Q k = []" by (simp add: Values_Get_def)
  then have "Values_Get Q (fst p) = snd p" if "p = (k, [])" for p using that by simp
  then show "queryMatch C Q \<longleftrightarrow> (\<forall>p \<in> set C. p \<noteq> (k, []) \<longrightarrow> Values_Get Q (fst p) = snd p)"
    unfolding queryMatch_iff list_all_iff by blast
qed

theorem queryMatch_empty_value_absent_key_witness:
  "queryMatch [(''flag'', [])] (map_of [(''page'', [''2''])]) \<and>
   queryMatch [(''flag'', []), (''page'', ''2'')] (map_of [(''page'', [''2''])])"
proof -
  have m: "(''flag'', []) \<in> set [(''flag'', []), (''page'', ''2'')]" by simp
  have n: "map_of [(''page'', [''2''])] ''flag'' = None" by simp
  from queryMatch_empty_value_absent_key
         [of "''flag''" "[(''flag'', []), (''page'', ''2'')]" "map_of [(''page'', [''2''])]", OF m n]
  show ?thesis by (simp add: Values_Get_def)
qed

section \<open>Properties of the middleware chain\<close>

lemma chainLoop_foldr:
  "n \<le> length mws \<Longrightarrow> chainLoop n h mws = foldr (\<lambda>m k. m k) (take n mws) h"
proof (induction n arbitrary: h)
  case 0
  then show ?case by simp
next
  case (Suc n)
  then have lt: "n < length mws" by simp
  have "chainLoop (Suc n) h mws = chainLoop n ((mws ! n) h) mws" by simp
  also have "\<dots> = foldr (\<lambda>m k. m k) (take n mws) ((mws ! n) h)"
    using Suc.IH [of "(mws ! n) h"] lt by simp
  also have "\<dots> = foldr (\<lambda>m k. m k) (take n mws @ [mws ! n]) h" by simp
  also have "take n mws @ [mws ! n] = take (Suc n) mws"
    using lt by (simp add: take_Suc_conv_app_nth)
  finally show ?case .
qed

lemma chainMiddleware_foldr: "chainMiddleware h mws = foldr (\<lambda>m k. m k) mws h"
  by (simp add: chainMiddleware_def chainLoop_foldr)

lemma chainMiddleware_Nil: "chainMiddleware h [] = h"
  by (simp add: chainMiddleware_foldr)

lemma chainMiddleware_Cons: "chainMiddleware h (m # ms) = m (chainMiddleware h ms)"
  by (simp add: chainMiddleware_foldr)

lemma chainMiddleware_append:
  "chainMiddleware h (ms @ ms') = chainMiddleware (chainMiddleware h ms') ms"
  by (simp add: chainMiddleware_foldr)

lemma chainMiddleware_around:
  "chainMiddleware H (map (\<lambda>p. around (fst p) (snd p)) ps) w r =
     fold (\<lambda>p w'. snd p w' r) (rev ps) (H (fold (\<lambda>p w'. fst p w' r) ps w) r)"
proof (induction ps arbitrary: w)
  case Nil
  then show ?case by (simp add: chainMiddleware_Nil)
next
  case (Cons p ps)
  have "chainMiddleware H (map (\<lambda>p. around (fst p) (snd p)) (p # ps)) w r =
          snd p (chainMiddleware H (map (\<lambda>p. around (fst p) (snd p)) ps) (fst p w r) r) r"
    by (simp add: chainMiddleware_Cons around_def)
  also have "\<dots> = snd p (fold (\<lambda>p w'. snd p w' r) (rev ps)
                        (H (fold (\<lambda>p w'. fst p w' r) ps (fst p w r)) r)) r"
    by (simp only: Cons.IH)
  also have "\<dots> = fold (\<lambda>p w'. snd p w' r) (rev (p # ps))
                        (H (fold (\<lambda>p w'. fst p w' r) (p # ps) w) r)"
    by simp
  finally show ?case .
qed

lemma chainMiddleware_cut:
  assumes "\<forall>h h'. m h = m h'"
  shows "chainMiddleware H (outer @ m # inner) = chainMiddleware H' (outer @ m # inner')"
proof -
  have "m (chainMiddleware H inner) = m (chainMiddleware H' inner')"
    using assms by blast
  then show ?thesis
    by (simp add: chainMiddleware_append chainMiddleware_Cons)
qed

text \<open>
  Claim C2: the chain nests the middlewares with the first-registered one outermost.
  For middlewares that run their own logic before and after the next link, the logic
  before runs in registration order, then the terminal handler, then the logic after in
  reverse order; with the two logging middlewares of the test the observed order is
  middleware1-before, middleware2-before, handler, middleware2-after,
  middleware1-after. A middleware that does not call its next link cuts the chain: the
  composed handler no longer depends on the inner middlewares or on the terminal
  handler, so none of them runs.
\<close>

theorem chainMiddleware_order:
  "chainMiddleware H [] = H \<and>
   chainMiddleware H (m1 # ms) = m1 (chainMiddleware H ms) \<and>
   chainMiddleware H (map (\<lambda>p. around (fst p) (snd p)) ps) w r =
     fold (\<lambda>p w'. snd p w' r) (rev ps) (H (fold (\<lambda>p w'. fst p w' r) ps w) r) \<and>
   chainMiddleware (logEvent ''handler'')
       [around (logEvent ''middleware1-before'') (logEvent ''middleware1-after''),
        around (logEvent ''middleware2-before'') (logEvent ''middleware2-after'')] [] r =
     [''middleware1-before'', ''middleware2-before'', ''handler'',
      ''middleware2-after'', ''middleware1-after''] \<and>
   ((\<forall>h h'. m h = m h') \<longrightarrow>
      chainMiddleware H (outer @ m # inner) = chainMiddleware H' (outer @ m # inner')) \<and>
   chainMiddleware H (map (\<lambda>p. around (fst p) (snd p)) ps @ shortCircuit act # inner) w r =
     fold (\<lambda>p w'. snd p w' r) (rev ps) (act (fold (\<lambda>p w'. fst p w' r) ps w) r)"
proof (intro conjI impI)
  show "chainMiddleware H [] = H" by (rule chainMiddleware_Nil)
  show "chainMiddleware H (m1 # ms) = m1 (chainMiddleware H ms)" by (rule chainMiddleware_Cons)
  show "chainMiddleware H (map (\<lambda>p. around (fst p) (snd p)) ps) w r =
     fold (\<lambda>p w'. snd p w' r) (rev ps) (H (fold (\<lambda>p w'. fst p w' r) ps w) r)"
    by (rule chainMiddleware_around)
  show "chainMiddleware (logEvent ''handler'')
       [around (logEvent ''middleware1-before'') (logEvent ''middleware1-after''),
        around (logEvent ''middleware2-before'') (logEvent ''middleware2-after'')] [] r =
     [''middleware1-before'', ''middleware2-before'', ''handler'',
      ''middleware2-after'', ''middleware1-after'']"
    by (simp add: chainMiddleware_Cons chainMiddleware_Nil around_def logEvent_def)
  show "chainMiddleware H (outer @ m # inner) = chainMiddleware H' (outer @ m # inner')"
    if "\<forall>h h'. m h = m h'"
    using that by (rule chainMiddleware_cut)
  have "chainMiddleware H (map (\<lambda>p. around (fst p) (snd p)) ps @ shortCircuit act # inner) =
        chainMiddleware act (map (\<lambda>p. around (fst p) (snd p)) ps)"
    by (simp add: chainMiddleware_append chainMiddleware_Cons shortCircuit_def)
  then show "chainMiddleware H (map (\<lambda>p. around (fst p) (snd p)) ps @ shortCircuit act # inner) w r =
     fold (\<lambda>p w'. snd p w' r) (rev ps) (act (fold (\<lambda>p w'. fst p w' r) ps w) r)"
    by (simp add: chainMiddleware_around)
qed

theorem chainMiddleware_order_witness:
  "chainMiddleware (logEvent ''handler'')
     ([around (logEvent ''m1-before'') (logEvent ''m1-after'')] @
      shortCircuit (logEvent ''unauthorized'') #
      [around (logEvent ''m3-before'') (logEvent ''m3-after'')]) [] () =
   [''m1-before'', ''unauthorized'', ''m1-after'']"
proof -
  let ?m = "shortCircuit (logEvent ''unauthorized'') :: (string list \<Rightarrow> unit \<Rightarrow> string list) \<Rightarrow> _"
  let ?o = "[around (logEvent ''m1-before'') (logEvent ''m1-after'')] :: ((string list \<Rightarrow> unit \<Rightarrow> string list) \<Rightarrow> _) list"
  have c: "\<forall>h h'. ?m h = ?m h'" by (simp add: shortCircuit_def)
  have "chainMiddleware (logEvent ''handler'')
          (?o @ ?m # [around (logEvent ''m3-before'') (logEvent ''m3-after'')]) =
        chainMiddleware (logEvent ''unused'') (?o @ ?m # [])"
    using chainMiddleware_order [of "logEvent ''handler''" _ _ _ _ _ ?m ?o
        "[around (logEvent ''m3-before'') (logEvent ''m3-after'')]" "logEvent ''unused''" "[]"] c
    by blast
  then show ?thesis
    by (simp add: chainMiddleware_def around_def shortCircuit_def logEvent_def)
qed

section \<open>Properties of the dispatcher\<close>

lemma status_http_Error: "\<not> wroteHeader w \<Longrightarrow> status (http_Error w msg c) = c"
  by (simp add: http_Error_def Write_def WriteHeader_def Header_Set_def Header_Del_def)

lemma keySuffixScan_iff: "keySuffixScan rs t \<longleftrightarrow> (\<exists>k \<in> fst ` set rs. hasSuffix k t)"
  by (induction rs t rule: keySuffixScan.induct) auto

lemma hasSuffix_append: "hasSuffix (m @ t) t"
  by (simp add: hasSuffix_def)

lemma hasSuffix_iff: "hasSuffix k t \<longleftrightarrow> (\<exists>m. k = m @ t)"
proof
  assume "hasSuffix k t"
  then have "k = take (length k - length t) k @ t"
    by (metis append_take_drop_id hasSuffix_def)
  then show "\<exists>m. k = m @ t" ..
next
  assume "\<exists>m. k = m @ t"
  then show "hasSuffix k t" by (auto simp: hasSuffix_append)
qed

lemma templatePathScan_iff:
  "templatePathScan trs r \<longleftrightarrow>
     (\<exists>tr \<in> set trs. pathMatch (segments tr) (r_Path r) \<and> queryMatch (queries tr) (r_Query r))"
  by (induction trs r rule: templatePathScan.induct) auto

lemma templateScan_None_iff:
  "templateScan trs r = None \<longleftrightarrow>
     \<not> (\<exists>tr \<in> set trs. tr_method tr = r_Method r \<and> pathMatch (segments tr) (r_Path r) \<and>
            queryMatch (queries tr) (r_Query r))"
  by (induction trs r rule: templateScan.induct) auto

lemma dispatch_miss:
  assumes "map_of (routers s) (toUpper (r_Method r) @ '' '' @ r_Path r) = None"
      and "templateScan (templateRoutes s) r = None"
  shows "dispatch s w r =
     (if (\<exists>k \<in> fst ` set (routers s). \<exists>m. k = m @ '' '' @ r_Path r) \<or>
         (\<exists>tr \<in> set (templateRoutes s).
             pathMatch (segments tr) (r_Path r) \<and> queryMatch (queries tr) (r_Query r))
      then http_Error w (StatusText StatusMethodNotAllowed) StatusMethodNotAllowed
      else http_NotFound w r)"
  using assms
  by (auto simp: dispatch_def Let_def keySuffixScan_iff templatePathScan_iff hasSuffix_iff)

text \<open>
  Claim C1: when the exact-route map has an entry under the key made of the upper-cased
  method, a space and the path of the request, \<open>dispatch\<close> runs that entry's composed
  handler, whatever the list of templated routes holds: the result is the same for
  every such list, so no templated route has a say, however many of them match and in
  whatever order they were registered.
\<close>

theorem dispatch_exact_first:
  assumes "map_of (routers s) (toUpper (r_Method r) @ '' '' @ r_Path r) = Some ri"
  shows "dispatch s w r = chainMiddleware (handler ri) (middlewares ri) w r \<and>
         dispatch (s\<lparr>templateRoutes := trs\<rparr>) w r = chainMiddleware (handler ri) (middlewares ri) w r"
  using assms by (simp add: dispatch_def)

theorem dispatch_exact_first_witness:
  "(case AddHandler (NewStub []) ''get'' ''/users/:id'' (respond 200 ''template'') [] of
      Inl p \<Rightarrow> False
    | Inr s1 \<Rightarrow>
        (case AddHandler s1 ''get'' ''/users/42'' (respond 200 ''exact'') [] of
           Inl p \<Rightarrow> False
         | Inr s \<Rightarrow>
             templateScan (templateRoutes s)
                 \<lparr>r_Method = ''GET'', r_Path = ''/users/42'', r_Query = Map.empty, r_Body = []\<rparr> \<noteq> None \<and>
             body (dispatch s newRecorder
                 \<lparr>r_Method = ''GET'', r_Path = ''/users/42'', r_Query = Map.empty, r_Body = []\<rparr>) = ''exact''))"
proof -
  define tr where "tr = \<lparr>tr_method = ''GET'', segments = [''users'', '':id''], queries = [],
      info = \<lparr>handler = respond 200 ''template'', middlewares = []\<rparr>\<rparr>"
  define ri where "ri = \<lparr>handler = respond 200 ''exact'', middlewares = []\<rparr>"
  define s1 where "s1 = (NewStub [])\<lparr>templateRoutes := [tr]\<rparr>"
  define s where "s = s1\<lparr>routers := [(''GET /users/42'', ri)]\<rparr>"
  define r where "r = \<lparr>r_Method = ''GET'', r_Path = ''/users/42'', r_Query = Map.empty, r_Body = []\<rparr>"
  have a1: "AddHandler (NewStub []) ''get'' ''/users/:id'' (respond 200 ''template'') [] = Inr s1"
    by (simp add: AddHandler_def NewStub_def s1_def tr_def containsByte_def toUpper_def
        toUpperByte_def trim_def trimLeft_def trimRight_def)
  have a2: "AddHandler s1 ''get'' ''/users/42'' (respond 200 ''exact'') [] = Inr s"
    by (simp add: AddHandler_def NewStub_def s1_def s_def ri_def containsByte_def toUpper_def
        toUpperByte_def)
  have look: "map_of (routers s) (toUpper (r_Method r) @ '' '' @ r_Path r) = Some ri"
    by (simp add: s_def r_def toUpper_def toUpperByte_def)
  have scan: "templateScan (templateRoutes s) r \<noteq> None"
    by (simp add: s_def s1_def tr_def r_def pathMatch_def queryMatch_def hasPrefix_def
        trim_def trimLeft_def trimRight_def)
  have "dispatch s newRecorder r = chainMiddleware (handler ri) (middlewares ri) newRecorder r"
    using dispatch_exact_first [OF look, of newRecorder] by blast
  then have "body (dispatch s newRecorder r) = ''exact''"
    by (simp add: ri_def chainMiddleware_def respond_def Write_def WriteHeader_def newRecorder_def)
  with scan show ?thesis
    by (simp add: a1 a2 r_def)
qed

text \<open>
  Claim C6 at a registry that holds the single exact route \<open>GET "/x /foo"\<close>: the request
  \<open>POST /foo\<close> matches no route under any method, and is answered 405, because the key
  \<open>"GET /x /foo"\<close> ends with \<open>" /foo"\<close>. A request for \<open>/bar\<close> on the same registry is
  answered 404. (Lemma \<open>dispatch_miss\<close> above is the classification the loops compute.)
\<close>

theorem dispatch_suffix_collision:
  "AddHandler (NewStub []) ''GET'' ''/x /foo'' (respond 200 ''ok'') [] =
     Inr ((NewStub [])\<lparr>routers := [(''GET /x /foo'', \<lparr>handler = respond 200 ''ok'', middlewares = []\<rparr>)]\<rparr>) \<and>
   status (dispatch ((NewStub [])\<lparr>routers := [(''GET /x /foo'', \<lparr>handler = respond 200 ''ok'', middlewares = []\<rparr>)]\<rparr>)
       newRecorder \<lparr>r_Method = ''POST'', r_Path = ''/foo'', r_Query = Map.empty, r_Body = []\<rparr>) =
     StatusMethodNotAllowed \<and>
   status (dispatch ((NewStub [])\<lparr>routers := [(''GET /x /foo'', \<lparr>handler = respond 200 ''ok'', middlewares = []\<rparr>)]\<rparr>)
       newRecorder \<lparr>r_Method = ''POST'', r_Path = ''/bar'', r_Query = Map.empty, r_Body = []\<rparr>) =
     StatusNotFound"
  by (simp add: AddHandler_def NewStub_def containsByte_def toUpper_def toUpperByte_def
      dispatch_def hasSuffix_def http_Error_def http_NotFound_def Write_def WriteHeader_def
      Header_Set_def Header_Del_def newRecorder_def StatusMethodNotAllowed_def StatusNotFound_def)

section \<open>Properties of the lifecycle\<close>

text \<open>
  Claim C7: on a started stub a second \<open>Close\<close> changes nothing, and \<open>URL\<close> is empty after
  the first and after the second. \<open>Close\<close> has no failing branch: the one call that could
  fail, \<open>Server.Close\<close>, is guarded and runs once.
\<close>

theorem Close_idempotent:
  "Server s \<noteq> None \<Longrightarrow>
   Close (Close s) = Close s \<and> URL (Close s) = [] \<and> URL (Close (Close s)) = []"
  by (simp add: Close_def URL_def)

theorem Close_idempotent_witness:
  "Server (snd (Start (\<lambda>a. Inr ''127.0.0.1:8008'') (NewStub [WithPort ''8008'']))) \<noteq> None \<and>
   URL (snd (Start (\<lambda>a. Inr ''127.0.0.1:8008'') (NewStub [WithPort ''8008'']))) = ''http://127.0.0.1:8008'' \<and>
   Close (Close (snd (Start (\<lambda>a. Inr ''127.0.0.1:8008'') (NewStub [WithPort ''8008''])))) =
     Close (snd (Start (\<lambda>a. Inr ''127.0.0.1:8008'') (NewStub [WithPort ''8008'']))) \<and>
   URL (Close (snd (Start (\<lambda>a. Inr ''127.0.0.1:8008'') (NewStub [WithPort ''8008''])))) = [] \<and>
   URL (Close (Close (snd (Start (\<lambda>a. Inr ''127.0.0.1:8008'') (NewStub [WithPort ''8008'']))))) = []"
proof -
  let ?s = "snd (Start (\<lambda>a. Inr ''127.0.0.1:8008'') (NewStub [WithPort ''8008'']))"
  have started: "Server ?s \<noteq> None"
    by (simp add: Start_def NewStub_def WithPort_def Let_def)
  have url: "URL ?s = ''http://127.0.0.1:8008''"
    by (simp add: Start_def NewStub_def WithPort_def Let_def URL_def)
  from Close_idempotent [OF started] started url show ?thesis by blast
qed

lemma Start_bind_failure:
  assumes "Server s = None" and "net_Listen (JoinHostPort_empty (port s)) = Inl e"
  shows "\<exists>msg. fst (Start net_Listen s) = Some (wrapError msg e)"
    and "Unwrap (the (fst (Start net_Listen s))) = Some e"
    and "snd (Start net_Listen s) = s\<lparr>mux := None\<rparr>"
    and "Server (snd (Start net_Listen s)) = None"
    and "URL (snd (Start net_Listen s)) = []"
  using assms by (simp_all add: Start_def Let_def URL_def)

lemma Start_after_bind_failure:
  assumes "Server s = None" and "busy (JoinHostPort_empty (port s)) = Inl e"
      and "free (JoinHostPort_empty (port s)) = Inr ln"
  shows "fst (Start free (snd (Start busy s))) = None"
    and "map_option Config_Handler (Server (snd (Start free (snd (Start busy s))))) = Some None"
    and "map_option Config_Handler (Server (snd (Start free s))) = Some (mux s)"
    and "serve decode (snd (Start free (snd (Start busy s)))) r = Panicked"
  using assms by (simp_all add: Start_def Let_def serve_def)

text \<open>
  Claim C8 at a stub on port 12345: the first \<open>Start\<close> finds the port taken and returns
  the wrapped bind error, with no server and an empty URL; it also sets the mux to nil.
  The second \<open>Start\<close>, with the port free, returns no error, yet its server has the nil
  mux as handler and a request to \<open>/readyz\<close> panics, where a stub that never failed
  answers 200 with body \<open>ok\<close>.
\<close>

theorem Start_retry_serves_nothing:
  "fst (Start (\<lambda>a. Inl (errorString ''bind: address already in use'')) (NewStub [WithPort ''12345''])) =
     Some (wrapError ''could not listen on :12345: bind: address already in use''
             (errorString ''bind: address already in use'')) \<and>
   Server (snd (Start (\<lambda>a. Inl (errorString ''bind: address already in use'')) (NewStub [WithPort ''12345'']))) = None \<and>
   URL (snd (Start (\<lambda>a. Inl (errorString ''bind: address already in use'')) (NewStub [WithPort ''12345'']))) = [] \<and>
   mux (snd (Start (\<lambda>a. Inl (errorString ''bind: address already in use'')) (NewStub [WithPort ''12345'']))) = None \<and>
   fst (Start (\<lambda>a. Inr ''[::]:12345'')
          (snd (Start (\<lambda>a. Inl (errorString ''bind: address already in use'')) (NewStub [WithPort ''12345''])))) = None \<and>
   serve decode
      (snd (Start (\<lambda>a. Inr ''[::]:12345'')
          (snd (Start (\<lambda>a. Inl (errorString ''bind: address already in use'')) (NewStub [WithPort ''12345''])))))
      \<lparr>r_Method = ''GET'', r_Path = ''/readyz'', r_Query = Map.empty, r_Body = []\<rparr> = Panicked \<and>
   (case serve decode (snd (Start (\<lambda>a. Inr ''[::]:12345'') (NewStub [WithPort ''12345''])))
      \<lparr>r_Method = ''GET'', r_Path = ''/readyz'', r_Query = Map.empty, r_Body = []\<rparr> of
      Responded s w \<Rightarrow> status w = 200 \<and> body w = ''ok''
    | _ \<Rightarrow> False)"
  by (simp add: Start_def NewStub_def WithPort_def Let_def URL_def serve_def JoinHostPort_empty_def
      muxLookup_def patternMatches_def hasSuffix_def hasPrefix_def readyz_def Write_def
      WriteHeader_def newRecorder_def StatusOK_def)

section \<open>Properties of the control plane\<close>

lemma wroteHeader_fold_Header_Set:
  "wroteHeader (fold (\<lambda>(k, v) w'. Header_Set k v w') hs w) = wroteHeader w"
  by (induction hs arbitrary: w) (simp_all add: Header_Set_def split_beta)

lemma status_WriteHeader: "\<not> wroteHeader w \<Longrightarrow> status (WriteHeader c w) = c"
  by (simp add: WriteHeader_def)

lemma wroteHeader_WriteHeader: "wroteHeader (WriteHeader c w)"
  by (simp add: WriteHeader_def)

lemma status_Write: "wroteHeader w \<Longrightarrow> status (Write bs w) = status w"
  by (simp add: Write_def)

lemma status_responseHandler:
  assumes "\<not> wroteHeader w"
  shows "status (responseHandler spec w r) = Status spec"
proof -
  let ?w1 = "fold (\<lambda>(k, v) w'. Header_Set k v w') (Headers spec) w"
  have n: "\<not> wroteHeader ?w1" using assms by (simp add: wroteHeader_fold_Header_Set)
  have a: "status (WriteHeader (Status spec) ?w1) = Status spec"
    using n by (rule status_WriteHeader)
  have b: "status (Write (Body spec) (WriteHeader (Status spec) ?w1)) = Status spec"
    by (simp only: status_Write [OF wroteHeader_WriteHeader] a)
  show ?thesis
    unfolding responseHandler_def Let_def using a b by (cases "Body spec = []") simp_all
qed


lemma control_not_post:
  "r_Method r \<noteq> ''POST'' \<Longrightarrow>
   controlAddHandler decode s w r =
     (s, http_Error w (StatusText StatusMethodNotAllowed) StatusMethodNotAllowed)"
  by (simp add: controlAddHandler_def)

lemma control_bad_json:
  "r_Method r = ''POST'' \<Longrightarrow> decode (r_Body r) = Inl err \<Longrightarrow>
   controlAddHandler decode s w r = (s, http_Error w (''invalid JSON: '' @ err) StatusBadRequest)"
  by (simp add: controlAddHandler_def)

lemma control_missing_field:
  "r_Method r = ''POST'' \<Longrightarrow> decode (r_Body r) = Inr spec \<Longrightarrow>
   Method spec = [] \<or> Path spec = [] \<Longrightarrow>
   controlAddHandler decode s w r =
     (s, http_Error w ''method and path are required'' StatusBadRequest)"
  by (simp add: controlAddHandler_def)


lemma control_default_status:
  assumes "r_Method r = ''POST''" and "decode (r_Body r) = Inr spec"
      and "Method spec \<noteq> []" and "Path spec \<noteq> []" and "Status spec = 0"
  shows "controlAddHandler decode s w r =
        (if containsByte (Path spec) CHR '':'' \<or> Query spec \<noteq> []
         then s\<lparr>templateRoutes := templateRoutes s @
                  [\<lparr>tr_method = toUpper (Method spec),
                    segments = split CHR ''/'' (trim CHR ''/'' (Path spec)),
                    queries = Query spec,
                    info = \<lparr>handler = responseHandler (spec\<lparr>Status := 200\<rparr>), middlewares = []\<rparr>\<rparr>]\<rparr>
         else s\<lparr>routers := AList.update (toUpper (Method spec) @ '' '' @ Path spec)
                  \<lparr>handler = responseHandler (spec\<lparr>Status := 200\<rparr>), middlewares = []\<rparr> (routers s)\<rparr>,
         WriteHeader StatusCreated w)"
  unfolding controlAddHandler_def using assms
  by (simp add: Let_def StatusOK_def)

text \<open>
  Claim C9, as stated, speaks of every request to the registration endpoint. The handler
  first tests the request method: a request that is not a POST is answered 405 before
  its body is read, so an unparseable body then gets 405 rather than 400, and a
  well-formed payload is not registered.
\<close>

theorem controlAddHandler_method_gate:
  \<open>status (snd (controlAddHandler (\<lambda>b. Inl ''unexpected EOF'') (NewStub []) newRecorder
      \<lparr>r_Method = ''GET'', r_Path = ''/_control/handlers'', r_Query = Map.empty,
       r_Body = ''{"method":''\<rparr>)) = 405 \<and>
   fst (controlAddHandler
      (\<lambda>b. Inr \<lparr>Method = ''GET'', Path = ''/dynamic'', Query = [], Status = 0, Body = [], Headers = []\<rparr>)
      (NewStub []) newRecorder
      \<lparr>r_Method = ''GET'', r_Path = ''/_control/handlers'', r_Query = Map.empty,
       r_Body = ''{"method":"GET","path":"/dynamic"}''\<rparr>) = NewStub [] \<and>
   status (snd (controlAddHandler
      (\<lambda>b. Inr \<lparr>Method = ''GET'', Path = ''/dynamic'', Query = [], Status = 0, Body = [], Headers = []\<rparr>)
      (NewStub []) newRecorder
      \<lparr>r_Method = ''GET'', r_Path = ''/_control/handlers'', r_Query = Map.empty,
       r_Body = ''{"method":"GET","path":"/dynamic"}''\<rparr>)) = 405\<close>
proof -
  have n: "\<not> wroteHeader newRecorder" by (simp add: newRecorder_def)
  have g: "r_Method \<lparr>r_Method = ''GET'', r_Path = p, r_Query = q, r_Body = b\<rparr> \<noteq> ''POST''" for p q b
    by simp
  show ?thesis
    by (simp only: control_not_post [OF g] fst_conv snd_conv status_http_Error [OF n]
        StatusMethodNotAllowed_def simp_thms)
qed

text \<open>
  Claim C9, amended: a request whose method is not POST is answered 405 and leaves the
  stub unchanged. For a POST, a body that does not decode is answered 400 and a decoded
  payload with an empty method or path is answered 400, in both cases with the stub (so
  the exact-route map and the templated-route list) unchanged; and a payload with method
  and path whose status is 0 (absent) is answered 201 and registered, as a templated
  route when the path has a parameter marker or query constraints are given and as an
  exact route otherwise, with a handler that writes status 200.
\<close>

theorem controlAddHandler_validation:
  "(r_Method r \<noteq> ''POST'' \<longrightarrow>
      controlAddHandler decode s w r =
        (s, http_Error w (StatusText StatusMethodNotAllowed) StatusMethodNotAllowed)) \<and>
   (r_Method r = ''POST'' \<and> decode (r_Body r) = Inl err \<longrightarrow>
      controlAddHandler decode s w r = (s, http_Error w (''invalid JSON: '' @ err) StatusBadRequest)) \<and>
   (r_Method r = ''POST'' \<and> decode (r_Body r) = Inr spec \<and> (Method spec = [] \<or> Path spec = []) \<longrightarrow>
      controlAddHandler decode s w r =
        (s, http_Error w ''method and path are required'' StatusBadRequest)) \<and>
   (\<not> wroteHeader w \<longrightarrow> status (http_Error w msg StatusBadRequest) = 400) \<and>
   (r_Method r = ''POST'' \<and> decode (r_Body r) = Inr spec \<and> Method spec \<noteq> [] \<and> Path spec \<noteq> [] \<and>
    Status spec = 0 \<longrightarrow>
      controlAddHandler decode s w r =
        (if containsByte (Path spec) CHR '':'' \<or> Query spec \<noteq> []
         then s\<lparr>templateRoutes := templateRoutes s @
                  [\<lparr>tr_method = toUpper (Method spec),
                    segments = split CHR ''/'' (trim CHR ''/'' (Path spec)),
                    queries = Query spec,
                    info = \<lparr>handler = responseHandler (spec\<lparr>Status := 200\<rparr>), middlewares = []\<rparr>\<rparr>]\<rparr>
         else s\<lparr>routers := AList.update (toUpper (Method spec) @ '' '' @ Path spec)
                  \<lparr>handler = responseHandler (spec\<lparr>Status := 200\<rparr>), middlewares = []\<rparr> (routers s)\<rparr>,
         WriteHeader StatusCreated w)) \<and>
   (\<not> wroteHeader w' \<longrightarrow> status (responseHandler (spec\<lparr>Status := 200\<rparr>) w' r') = 200)"
proof (intro conjI impI)
  show "controlAddHandler decode s w r =
        (s, http_Error w (StatusText StatusMethodNotAllowed) StatusMethodNotAllowed)"
    if "r_Method r \<noteq> ''POST''"
    using that by (rule control_not_post)
  show "controlAddHandler decode s w r = (s, http_Error w (''invalid JSON: '' @ err) StatusBadRequest)"
    if "r_Method r = ''POST'' \<and> decode (r_Body r) = Inl err"
    using that by (blast intro: control_bad_json)
  show "controlAddHandler decode s w r =
        (s, http_Error w ''method and path are required'' StatusBadRequest)"
    if "r_Method r = ''POST'' \<and> decode (r_Body r) = Inr spec \<and> (Method spec = [] \<or> Path spec = [])"
    using that by (blast intro: control_missing_field)
  show "status (http_Error w msg StatusBadRequest) = 400" if "\<not> wroteHeader w"
    using that by (simp add: status_http_Error StatusBadRequest_def)
  show "controlAddHandler decode s w r =
        (if containsByte (Path spec) CHR '':'' \<or> Query spec \<noteq> []
         then s\<lparr>templateRoutes := templateRoutes s @
                  [\<lparr>tr_method = toUpper (Method spec),
                    segments = split CHR ''/'' (trim CHR ''/'' (Path spec)),
                    queries = Query spec,
                    info = \<lparr>handler = responseHandler (spec\<lparr>Status := 200\<rparr>), middlewares = []\<rparr>\<rparr>]\<rparr>
         else s\<lparr>routers := AList.update (toUpper (Method spec) @ '' '' @ Path spec)
                  \<lparr>handler = responseHandler (spec\<lparr>Status := 200\<rparr>), middlewares = []\<rparr> (routers s)\<rparr>,
         WriteHeader StatusCreated w)"
    if "r_Method r = ''POST'' \<and> decode (r_Body r) = Inr spec \<and> Method spec \<noteq> [] \<and> Path spec \<noteq> [] \<and>
        Status spec = 0"
    using that by (intro control_default_status) blast+
  show "status (responseHandler (spec\<lparr>Status := 200\<rparr>) w' r') = 200" if "\<not> wroteHeader w'"
    using that by (simp add: status_responseHandler)
qed

theorem controlAddHandler_validation_witness:
  \<open>fst (controlAddHandler (\<lambda>b. Inl ''unexpected EOF'') (NewStub []) newRecorder
      \<lparr>r_Method = ''POST'', r_Path = ''/_control/handlers'', r_Query = Map.empty,
       r_Body = ''{"method":''\<rparr>) = NewStub [] \<and>
   status (snd (controlAddHandler (\<lambda>b. Inl ''unexpected EOF'') (NewStub []) newRecorder
      \<lparr>r_Method = ''POST'', r_Path = ''/_control/handlers'', r_Query = Map.empty,
       r_Body = ''{"method":''\<rparr>)) = 400 \<and>
   fst (controlAddHandler
      (\<lambda>b. Inr \<lparr>Method = ''GET'', Path = [], Query = [], Status = 0, Body = [], Headers = []\<rparr>)
      (NewStub []) newRecorder
      \<lparr>r_Method = ''POST'', r_Path = ''/_control/handlers'', r_Query = Map.empty,
       r_Body = ''{"method":"GET"}''\<rparr>) = NewStub [] \<and>
   status (snd (controlAddHandler
      (\<lambda>b. Inr \<lparr>Method = ''get'', Path = ''/dynamic'', Query = [], Status = 0, Body = ''created'', Headers = []\<rparr>)
      (NewStub []) newRecorder
      \<lparr>r_Method = ''POST'', r_Path = ''/_control/handlers'', r_Query = Map.empty,
       r_Body = ''{"method":"get","path":"/dynamic","body":"created"}''\<rparr>)) = 201 \<and>
   status (dispatch (fst (controlAddHandler
      (\<lambda>b. Inr \<lparr>Method = ''get'', Path = ''/dynamic'', Query = [], Status = 0, Body = ''created'', Headers = []\<rparr>)
      (NewStub []) newRecorder
      \<lparr>r_Method = ''POST'', r_Path = ''/_control/handlers'', r_Query = Map.empty,
       r_Body = ''{"method":"get","path":"/dynamic","body":"created"}''\<rparr>))
      newRecorder \<lparr>r_Method = ''GET'', r_Path = ''/dynamic'', r_Query = Map.empty, r_Body = []\<rparr>) = 200\<close>
proof -
  define s0 where "s0 = NewStub []"
  define sp where "sp = \<lparr>Method = ''get'', Path = ''/dynamic'', Query = [], Status = 0,
      Body = ''created'', Headers = []\<rparr>"
  define sq where "sq = \<lparr>Method = ''GET'', Path = [], Query = [], Status = 0, Body = [], Headers = []\<rparr>"
  have n: "\<not> wroteHeader newRecorder" by (simp add: newRecorder_def)
  let ?post = "\<lambda>b. \<lparr>r_Method = ''POST'', r_Path = ''/_control/handlers'',
      r_Query = Map.empty, r_Body = b\<rparr>"
  have m: "r_Method (?post b) = ''POST''" for b by simp
  have a: "controlAddHandler (\<lambda>b. Inl ''unexpected EOF'') s0 newRecorder (?post b) =
      (s0, http_Error newRecorder (''invalid JSON: '' @ ''unexpected EOF'') StatusBadRequest)" for b
    using controlAddHandler_validation
      [of "?post b" "\<lambda>b. Inl ''unexpected EOF''" s0 newRecorder "''unexpected EOF''"] m
    by blast
  have a4: "status (http_Error newRecorder (''invalid JSON: '' @ ''unexpected EOF'') StatusBadRequest) = 400"
    using controlAddHandler_validation [of _ _ _ newRecorder] n by blast
  have b: "controlAddHandler (\<lambda>b. Inr sq) s0 newRecorder (?post b) =
      (s0, http_Error newRecorder ''method and path are required'' StatusBadRequest)" for b
    using controlAddHandler_validation [of "?post b" "\<lambda>b. Inr sq" s0 newRecorder _ sq] m
    by (simp add: sq_def)
  have c: "controlAddHandler (\<lambda>b. Inr sp) s0 newRecorder (?post b) =
      (s0\<lparr>routers := AList.update (toUpper (Method sp) @ '' '' @ Path sp)
              \<lparr>handler = responseHandler (sp\<lparr>Status := 200\<rparr>), middlewares = []\<rparr> (routers s0)\<rparr>,
       WriteHeader StatusCreated newRecorder)" for b
    using controlAddHandler_validation [of "?post b" "\<lambda>b. Inr sp" s0 newRecorder _ sp] m
    by (simp add: sp_def containsByte_def)
  have c1: "status (WriteHeader StatusCreated newRecorder) = 201"
    by (simp add: WriteHeader_def newRecorder_def StatusCreated_def)
  have c2: "status (dispatch
      (s0\<lparr>routers := AList.update (toUpper (Method sp) @ '' '' @ Path sp)
              \<lparr>handler = responseHandler (sp\<lparr>Status := 200\<rparr>), middlewares = []\<rparr> (routers s0)\<rparr>)
      newRecorder \<lparr>r_Method = ''GET'', r_Path = ''/dynamic'', r_Query = Map.empty, r_Body = []\<rparr>) = 200"
    by (simp add: dispatch_def s0_def NewStub_def sp_def toUpper_def toUpperByte_def
        chainMiddleware_def status_responseHandler n)
  show ?thesis
    unfolding s0_def [symmetric] sp_def [symmetric] sq_def [symmetric]
    by (simp only: a b c a4 c1 c2 fst_conv snd_conv simp_thms)
qed

end
